theory Spec2Isabelle
  imports Main "HOL-Library.Word"
begin

unbundle bit_operations_syntax

section \<open>Data model of \<open>multilspy/language_server.py\<close>\<close>

text \<open>
  A Python \<open>str\<close> is modelled as a \<open>string\<close> whose characters stand for the code points
  below 256; Python's unbounded \<open>int\<close> is \<open>int\<close>. Exceptions are values of the type
  \<open>error\<close>; a function that can raise returns \<open>error + 'a\<close>, and a method that mutates the
  \<open>LanguageServer\<close> object returns the new object next to its result.
\<close>

datatype error =
    MultilspyException string
  | AssertionError
  | IndexError
  | KeyError string
  | TypeError

record position =
  line :: int
  character :: int

record lsp_range =
  range_start :: position
  range_end :: position

text \<open>
  A \<open>Location\<close> dictionary. The server sends \<open>uri\<close> and \<open>range\<close>; \<open>absolutePath\<close> and
  \<open>relativePath\<close> are added by the client, so every key is optional.
\<close>

record location =
  loc_uri :: "string option"
  loc_range :: "lsp_range option"
  absolutePath :: "string option"
  relativePath :: "string option"

text \<open>
  A document symbol as the server sends it and as \<open>UnifiedSymbolInformation\<close> keeps it: a
  dictionary whose keys may be absent (\<open>None\<close>). \<open>SymbolInformation\<close> has a \<open>location\<close> and
  no \<open>range\<close>; \<open>DocumentSymbol\<close> has \<open>range\<close>, \<open>selectionRange\<close> and maybe \<open>children\<close>.
\<close>

datatype symbol = Symbol
  (sym_name: "string option")
  (sym_kind: "int option")
  (sym_range: "lsp_range option")
  (sym_selectionRange: "lsp_range option")
  (sym_location: "location option")
  (sym_children: "symbol list option")

typedecl TreeRepr

type_synonym document_symbols_result = "symbol list \<times> TreeRepr list option"

text \<open>The dataclass \<open>LSPFileBuffer\<close> (source lines 37 to 63).\<close>

record LSPFileBuffer =
  uri :: string
  contents :: string
  version :: int
  buffer_language_id :: string
  ref_count :: int
  content_hash :: string

text \<open>The notifications handed to \<open>self.server.notify\<close>, in the order of the calls.\<close>

datatype notification =
    DidOpen string string int string
  | DidChange string int lsp_range string
  | DidClose string

text \<open>
  The value of the attribute \<open>_cache_has_changed\<close>: the constructor stores the class
  \<open>bool\<close> itself (source line 184), \<open>request_document_symbols\<close> stores \<open>True\<close> (line 669).
  \<open>truthy\<close> is what \<open>if self._cache_has_changed:\<close> tests: a class object is true.
\<close>

datatype py_flag = BoolType | PyBool bool

fun truthy :: "py_flag \<Rightarrow> bool" where
  "truthy BoolType = True"
| "truthy (PyBool b) = b"

type_synonym symbols_cache = "string \<rightharpoonup> (string \<times> document_symbols_result)"

text \<open>
  The \<open>LanguageServer\<close> object together with the two pieces of the outside world its methods
  touch: the source files on disk (\<open>disk\<close>, by absolute path) and the pickle file at
  \<open>_cache_path\<close> (\<open>cache_file\<close>, \<open>None\<close> while the file does not exist).
\<close>

record language_server =
  server_started :: bool
  repository_root_path :: string
  language_id :: string
  open_file_buffers :: "string \<rightharpoonup> LSPFileBuffer"
  document_symbols_cache :: symbols_cache
  cache_has_changed :: py_flag
  notified :: "notification list"
  disk :: "string \<rightharpoonup> string"
  cache_file :: "symbols_cache option"

section \<open>Python string and list operations\<close>

text \<open>\<open>s.split(sep)\<close> for a separator of one character: the result is never empty.\<close>

fun py_split :: "char \<Rightarrow> string \<Rightarrow> string list" where
  "py_split sep [] = [[]]"
| "py_split sep (c # cs) =
     (if c = sep then [] # py_split sep cs
      else (c # hd (py_split sep cs)) # tl (py_split sep cs))"

definition newline :: char where
  "newline = CHR 0x0A"

text \<open>
  \<open>str.isspace\<close> on the code points below 256: tab to carriage return, the four
  separators 28 to 31, the space, NEL (133) and the no-break space (160).
\<close>

definition py_isspace :: "char \<Rightarrow> bool" where
  "py_isspace c =
     (let n = (of_char c :: nat)
      in (9 \<le> n \<and> n \<le> 13) \<or> (28 \<le> n \<and> n \<le> 32) \<or> n = 133 \<or> n = 160)"

definition py_strip :: "string \<Rightarrow> string" where
  "py_strip s = rev (dropWhile py_isspace (rev (dropWhile py_isspace s)))"

text \<open>\<open>xs[i]\<close>: a negative index counts from the end, an index out of range raises.\<close>

definition py_index :: "'a list \<Rightarrow> int \<Rightarrow> error + 'a" where
  "py_index xs i =
     (if 0 \<le> i
      then (if i < int (length xs) then Inr (xs ! nat i) else Inl IndexError)
      else (if - int (length xs) \<le> i then Inr (xs ! nat (int (length xs) + i))
            else Inl IndexError))"

text \<open>
  Slices \<open>s[:i]\<close>, \<open>s[i:]\<close> and \<open>s[i:j]\<close>: a negative bound counts from the end, and
  every bound is clipped to the string; slicing never raises.
\<close>

definition py_bound :: "'a list \<Rightarrow> int \<Rightarrow> nat" where
  "py_bound xs i =
     (if i < 0 then nat (int (length xs) + i) else min (length xs) (nat i))"

definition py_slice_to :: "'a list \<Rightarrow> int \<Rightarrow> 'a list" where
  "py_slice_to xs i = take (py_bound xs i) xs"

definition py_slice_from :: "'a list \<Rightarrow> int \<Rightarrow> 'a list" where
  "py_slice_from xs i = drop (py_bound xs i) xs"

definition py_slice :: "'a list \<Rightarrow> int \<Rightarrow> int \<Rightarrow> 'a list" where
  "py_slice xs i j = take (py_bound xs j - py_bound xs i) (drop (py_bound xs i) xs)"

text \<open>
  \<open>max(xs, key=key)\<close> on a list that is not empty: the first of the elements whose key is
  greatest, since a later element replaces the best one only when its key is greater.
\<close>

fun py_max_from :: "('a \<Rightarrow> int) \<Rightarrow> 'a \<Rightarrow> 'a list \<Rightarrow> 'a" where
  "py_max_from key best [] = best"
| "py_max_from key best (x # xs) =
     py_max_from key (if key best < key x then x else best) xs"

section \<open>The content hash\<close>

text \<open>
  \<open>hashlib.md5(contents.encode('utf-8')).hexdigest()\<close>: MD5 as RFC 1321 defines it, on the
  UTF-8 encoding of the string, printed as 32 lower-case hexadecimal digits.
\<close>

definition md5_K :: "32 word list" where
  "md5_K = [0xd76aa478, 0xe8c7b756, 0x242070db, 0xc1bdceee, 0xf57c0faf, 0x4787c62a, 0xa8304613, 0xfd469501, 0x698098d8, 0x8b44f7af, 0xffff5bb1, 0x895cd7be, 0x6b901122, 0xfd987193, 0xa679438e, 0x49b40821, 0xf61e2562, 0xc040b340, 0x265e5a51, 0xe9b6c7aa, 0xd62f105d, 0x02441453, 0xd8a1e681, 0xe7d3fbc8, 0x21e1cde6, 0xc33707d6, 0xf4d50d87, 0x455a14ed, 0xa9e3e905, 0xfcefa3f8, 0x676f02d9, 0x8d2a4c8a, 0xfffa3942, 0x8771f681, 0x6d9d6122, 0xfde5380c, 0xa4beea44, 0x4bdecfa9, 0xf6bb4b60, 0xbebfbc70, 0x289b7ec6, 0xeaa127fa, 0xd4ef3085, 0x04881d05, 0xd9d4d039, 0xe6db99e5, 0x1fa27cf8, 0xc4ac5665, 0xf4292244, 0x432aff97, 0xab9423a7, 0xfc93a039, 0x655b59c3, 0x8f0ccc92, 0xffeff47d, 0x85845dd1, 0x6fa87e4f, 0xfe2ce6e0, 0xa3014314, 0x4e0811a1, 0xf7537e82, 0xbd3af235, 0x2ad7d2bb, 0xeb86d391]"

definition md5_S :: "nat list" where
  "md5_S = [7, 12, 17, 22, 7, 12, 17, 22, 7, 12, 17, 22, 7, 12, 17, 22,
            5, 9, 14, 20, 5, 9, 14, 20, 5, 9, 14, 20, 5, 9, 14, 20,
            4, 11, 16, 23, 4, 11, 16, 23, 4, 11, 16, 23, 4, 11, 16, 23,
            6, 10, 15, 21, 6, 10, 15, 21, 6, 10, 15, 21, 6, 10, 15, 21]"

type_synonym md5_state = "32 word \<times> 32 word \<times> 32 word \<times> 32 word"

definition md5_step :: "32 word list \<Rightarrow> nat \<Rightarrow> md5_state \<Rightarrow> md5_state" where
  "md5_step M i = (\<lambda>(a, b, c, d).
     let f = (if i < 16 then (b AND c) OR (NOT b AND d)
              else if i < 32 then (d AND b) OR (NOT d AND c)
              else if i < 48 then b XOR c XOR d
              else c XOR (b OR NOT d));
         g = (if i < 16 then i
              else if i < 32 then (5 * i + 1) mod 16
              else if i < 48 then (3 * i + 5) mod 16
              else (7 * i) mod 16)
     in (d, b + word_rotl (md5_S ! i) (f + a + md5_K ! i + M ! g), b, c))"

definition md5_block :: "md5_state \<Rightarrow> 32 word list \<Rightarrow> md5_state" where
  "md5_block h M =
     (case h of (a0, b0, c0, d0) \<Rightarrow>
        (case fold (md5_step M) [0..<64] h of (a, b, c, d) \<Rightarrow>
           (a0 + a, b0 + b, c0 + c, d0 + d)))"

definition utf8_encode :: "string \<Rightarrow> 8 word list" where
  "utf8_encode s =
     concat (map (\<lambda>ch. let n = of_char ch :: nat in
                    if n < 128 then [of_nat n] else [of_nat (192 + n div 64), of_nat (128 + n mod 64)]) s)"

definition le_bytes :: "nat \<Rightarrow> 'a::len word \<Rightarrow> 8 word list" where
  "le_bytes k w = map (\<lambda>i. ucast (drop_bit (8 * i) w)) [0..<k]"

definition md5_pad :: "8 word list \<Rightarrow> 8 word list" where
  "md5_pad bs = bs @ [0x80] @ replicate ((119 - length bs mod 64) mod 64) 0
                   @ le_bytes 8 (word_of_int (8 * int (length bs)) :: 64 word)"

fun chunks :: "nat \<Rightarrow> 'a list \<Rightarrow> 'a list list" where
  "chunks 0 xs = []"
| "chunks (Suc k) [] = []"
| "chunks (Suc k) (x # xs) = take (Suc k) (x # xs) # chunks (Suc k) (drop k xs)"

definition le_word :: "8 word list \<Rightarrow> 32 word" where
  "le_word bs = foldr (\<lambda>b acc. ucast b OR push_bit 8 acc) bs 0"

definition md5_digest :: "8 word list \<Rightarrow> 8 word list" where
  "md5_digest bs =
     (case fold (\<lambda>blk h. md5_block h (map le_word (chunks 4 blk))) (chunks 64 (md5_pad bs))
             (0x67452301, 0xefcdab89, 0x98badcfe, 0x10325476) of
        (a, b, c, d) \<Rightarrow> concat (map (le_bytes 4) [a, b, c, d]))"

definition hex_digit :: "nat \<Rightarrow> char" where
  "hex_digit n = (''0123456789abcdef'') ! n"

definition hexdigest :: "8 word list \<Rightarrow> string" where
  "hexdigest bs = concat (map (\<lambda>b. [hex_digit (unat (drop_bit 4 b)), hex_digit (unat (b AND 15))]) bs)"

definition md5_hexdigest :: "string \<Rightarrow> string" where
  "md5_hexdigest s = hexdigest (md5_digest (utf8_encode s))"


text \<open>
  The constructor of the dataclass with its \<open>__post_init__\<close> (source lines 62 and 63), the
  only place of the file that assigns \<open>content_hash\<close>.
\<close>

definition new_LSPFileBuffer :: "string \<Rightarrow> string \<Rightarrow> int \<Rightarrow> string \<Rightarrow> int \<Rightarrow> LSPFileBuffer" where
  "new_LSPFileBuffer u c v l r =
     \<lparr>uri = u, contents = c, version = v, buffer_language_id = l, ref_count = r,
      content_hash = md5_hexdigest c\<rparr>"

section \<open>Paths and files\<close>

text \<open>
  \<open>str(PurePath(root, relative))\<close> and \<open>pathlib.Path(p).as_uri()\<close> from the standard library,
  for an absolute POSIX root without a trailing slash and paths whose characters need no
  percent-encoding. \<open>os.path.join(root, relative)\<close>, which some methods use for the same
  purpose, agrees with the first on these paths.
\<close>

definition absolute_file_path :: "string \<Rightarrow> string \<Rightarrow> string" where
  "absolute_file_path root rel =
     (if rel \<noteq> [] \<and> hd rel = CHR ''/'' then rel else root @ ''/'' @ rel)"

definition as_uri :: "string \<Rightarrow> string" where
  "as_uri p = ''file://'' @ p"

text \<open>
  Modelled from the spec: \<open>FileUtils.read_file\<close> (module \<open>multilspy_utils\<close>, not among the
  sources) "reads file contents from disk"; a file that cannot be read is an exception.
\<close>

definition read_file :: "language_server \<Rightarrow> string \<Rightarrow> error + string" where
  "read_file s p =
     (case disk s p of
        None \<Rightarrow> Inl (MultilspyException ''File read failed'')
      | Some c \<Rightarrow> Inr c)"

text \<open>
  The two helpers of \<open>TextUtils\<close> (module \<open>multilspy_utils\<close>, not among the sources) that the
  edit methods call are parameters of the model.
\<close>

record text_utils =
  get_index_from_line_col :: "string \<Rightarrow> int \<Rightarrow> int \<Rightarrow> error + int"
  get_updated_position_from_line_and_column_and_edit :: "int \<Rightarrow> int \<Rightarrow> string \<Rightarrow> int \<times> int"

text \<open>
  Modelled from the spec: \<open>TextUtils.get_index_from_line_col\<close>. A position is a zero-indexed
  (line, character) pair and the conversion gives its offset in \<open>contents\<close>: the offset of
  the first character of the line plus the character. A line the text does not have is an
  assertion-class failure.
\<close>

fun line_offset :: "string \<Rightarrow> nat \<Rightarrow> nat option" where
  "line_offset text 0 = Some 0"
| "line_offset [] (Suc n) = None"
| "line_offset (c # cs) (Suc n) =
     map_option Suc (line_offset cs (if c = newline then n else Suc n))"

definition index_from_line_col :: "string \<Rightarrow> int \<Rightarrow> int \<Rightarrow> error + int" where
  "index_from_line_col text l c =
     (case line_offset text (nat l) of
        None \<Rightarrow> Inl AssertionError
      | Some k \<Rightarrow> Inr (int k + c))"

text \<open>
  Modelled from the spec: \<open>TextUtils.get_updated_position_from_line_and_column_and_edit\<close>,
  "the new cursor position computed by walking \<open>text\<close> and advancing line/character": a
  newline starts the next line at character 0, any other character advances the character.
\<close>

definition advance_position :: "int \<times> int \<Rightarrow> char \<Rightarrow> int \<times> int" where
  "advance_position p ch = (if ch = newline then (fst p + 1, 0) else (fst p, snd p + 1))"

definition updated_position :: "int \<Rightarrow> int \<Rightarrow> string \<Rightarrow> int \<times> int" where
  "updated_position l c text = foldl advance_position (l, c) text"

definition TextUtils :: text_utils where
  "TextUtils =
     \<lparr>get_index_from_line_col = index_from_line_col,
      get_updated_position_from_line_and_column_and_edit = updated_position\<rparr>"

section \<open>The buffer manager\<close>

text \<open>
  A method returns its result, or the exception it raised, together with the object as the
  call left it: what a method assigned before it raised stays assigned.
\<close>

type_synonym 'a result = "(error + 'a) \<times> language_server"

definition file_uri :: "language_server \<Rightarrow> string \<Rightarrow> string" where
  "file_uri s rel = as_uri (absolute_file_path (repository_root_path s) rel)"

text \<open>
  \<open>open_file\<close> (source lines 207 to 258) is a generator under \<open>@contextmanager\<close>.
  \<open>open_file_enter\<close> is the code up to the \<open>yield\<close>, with the yielded buffer as result.
\<close>

definition open_file_enter :: "language_server \<Rightarrow> string \<Rightarrow> LSPFileBuffer result" where
  "open_file_enter s rel =
     (if \<not> server_started s then (Inl (MultilspyException ''Language Server not started''), s)
      else
        let absolute = absolute_file_path (repository_root_path s) rel;
            u = as_uri absolute
        in case open_file_buffers s u of
             Some b \<Rightarrow>
               if uri b \<noteq> u \<or> \<not> 1 \<le> ref_count b then (Inl AssertionError, s)
               else
                 let b' = b\<lparr>ref_count := ref_count b + 1\<rparr>
                 in (Inr b', s\<lparr>open_file_buffers := (open_file_buffers s)(u \<mapsto> b')\<rparr>)
           | None \<Rightarrow>
               (case read_file s absolute of
                  Inl e \<Rightarrow> (Inl e, s)
                | Inr c \<Rightarrow>
                    let b = new_LSPFileBuffer u c 0 (language_id s) 1
                    in (Inr b,
                        s\<lparr>open_file_buffers := (open_file_buffers s)(u \<mapsto> b),
                          notified := notified s @ [DidOpen u (language_id s) 0 c]\<rparr>)))"

text \<open>
  \<open>open_file_exit\<close> is the code after the \<open>yield\<close>: the decrement of either branch, then
  the common test for zero (source lines 230, 248 and 250 to 258).
\<close>

definition open_file_exit :: "language_server \<Rightarrow> string \<Rightarrow> unit result" where
  "open_file_exit s rel =
     (let u = file_uri s rel
      in case open_file_buffers s u of
           None \<Rightarrow> (Inl (KeyError u), s)
         | Some b \<Rightarrow>
             let b' = b\<lparr>ref_count := ref_count b - 1\<rparr>
             in if ref_count b' = 0
                then (Inr (),
                      s\<lparr>notified := notified s @ [DidClose u],
                        open_file_buffers := (open_file_buffers s)(u := None)\<rparr>)
                else (Inr (), s\<lparr>open_file_buffers := (open_file_buffers s)(u \<mapsto> b')\<rparr>))"

text \<open>
  \<open>with self.open_file(rel) as file_data: body\<close>. The generator has no \<open>try\<close> around its
  \<open>yield\<close>: when the body raises, \<open>contextmanager\<close> throws the exception into the generator
  at the \<open>yield\<close>, nothing catches it there, and the code after the \<open>yield\<close> does not run.
  A body that ends or returns lets the generator run to its end.
\<close>

definition with_open_file ::
  "language_server \<Rightarrow> string \<Rightarrow> (LSPFileBuffer \<Rightarrow> language_server \<Rightarrow> 'a result) \<Rightarrow> 'a result" where
  "with_open_file s rel body =
     (case open_file_enter s rel of
        (Inl e, s1) \<Rightarrow> (Inl e, s1)
      | (Inr file_data, s1) \<Rightarrow>
          (case body file_data s1 of
             (Inl e, s2) \<Rightarrow> (Inl e, s2)
           | (Inr v, s2) \<Rightarrow>
               (case open_file_exit s2 rel of
                  (Inl e, s3) \<Rightarrow> (Inl e, s3)
                | (Inr _, s3) \<Rightarrow> (Inr v, s3))))"

text \<open>\<open>insert_text_at_position\<close> (source lines 260 to 309).\<close>

definition insert_text_at_position ::
  "text_utils \<Rightarrow> language_server \<Rightarrow> string \<Rightarrow> int \<Rightarrow> int \<Rightarrow> string \<Rightarrow> position result" where
  "insert_text_at_position tu s rel l c text_to_be_inserted =
     (if \<not> server_started s then (Inl (MultilspyException ''Language Server not started''), s)
      else
        let u = file_uri s rel
        in case open_file_buffers s u of
             None \<Rightarrow> (Inl AssertionError, s)
           | Some file_buffer \<Rightarrow>
               let b1 = file_buffer\<lparr>version := version file_buffer + 1\<rparr>;
                   s1 = s\<lparr>open_file_buffers := (open_file_buffers s)(u \<mapsto> b1)\<rparr>
               in case get_index_from_line_col tu (contents b1) l c of
                    Inl e \<Rightarrow> (Inl e, s1)
                  | Inr change_index \<Rightarrow>
                      let b2 = b1\<lparr>contents :=
                                 py_slice_to (contents b1) change_index @ text_to_be_inserted
                                   @ py_slice_from (contents b1) change_index\<rparr>;
                          at = \<lparr>line = l, character = c\<rparr>;
                          s2 = s1\<lparr>open_file_buffers := (open_file_buffers s1)(u \<mapsto> b2),
                                 notified := notified s1 @
                                   [DidChange (uri b2) (version b2)
                                      \<lparr>range_start = at, range_end = at\<rparr> text_to_be_inserted]\<rparr>
                      in case get_updated_position_from_line_and_column_and_edit tu l c
                                text_to_be_inserted of
                           (new_l, new_c) \<Rightarrow> (Inr \<lparr>line = new_l, character = new_c\<rparr>, s2))"

text \<open>\<open>delete_text_between_positions\<close> (source lines 311 to 348).\<close>

definition delete_text_between_positions ::
  "text_utils \<Rightarrow> language_server \<Rightarrow> string \<Rightarrow> position \<Rightarrow> position \<Rightarrow> string result" where
  "delete_text_between_positions tu s rel start end_pos =
     (if \<not> server_started s then (Inl (MultilspyException ''Language Server not started''), s)
      else
        let u = file_uri s rel
        in case open_file_buffers s u of
             None \<Rightarrow> (Inl AssertionError, s)
           | Some file_buffer \<Rightarrow>
               let b1 = file_buffer\<lparr>version := version file_buffer + 1\<rparr>;
                   s1 = s\<lparr>open_file_buffers := (open_file_buffers s)(u \<mapsto> b1)\<rparr>
               in case get_index_from_line_col tu (contents b1) (line start) (character start) of
                    Inl e \<Rightarrow> (Inl e, s1)
                  | Inr del_start_idx \<Rightarrow>
                      (case get_index_from_line_col tu (contents b1) (line end_pos)
                              (character end_pos) of
                         Inl e \<Rightarrow> (Inl e, s1)
                       | Inr del_end_idx \<Rightarrow>
                           let deleted_text = py_slice (contents b1) del_start_idx del_end_idx;
                               b2 = b1\<lparr>contents :=
                                      py_slice_to (contents b1) del_start_idx
                                        @ py_slice_from (contents b1) del_end_idx\<rparr>;
                               s2 = s1\<lparr>open_file_buffers := (open_file_buffers s1)(u \<mapsto> b2),
                                      notified := notified s1 @
                                        [DidChange (uri b2) (version b2)
                                           \<lparr>range_start = start, range_end = end_pos\<rparr> []]\<rparr>
                           in (Inr deleted_text, s2)))"

text \<open>\<open>get_open_file_text\<close> (source lines 350 to 370).\<close>

definition get_open_file_text :: "language_server \<Rightarrow> string \<Rightarrow> error + string" where
  "get_open_file_text s rel =
     (if \<not> server_started s then Inl (MultilspyException ''Language Server not started'')
      else case open_file_buffers s (file_uri s rel) of
             None \<Rightarrow> Inl AssertionError
           | Some file_buffer \<Rightarrow> Inr (contents file_buffer))"

text \<open>
  A text edit as data, and the method call that performs it, so that a sequence of edits
  can be run on the server; running stops at the first exception.
\<close>

datatype edit = Insert int int string | Delete position position

definition apply_edit :: "text_utils \<Rightarrow> language_server \<Rightarrow> string \<Rightarrow> edit \<Rightarrow> unit result" where
  "apply_edit tu s rel e =
     (case e of
        Insert l c x \<Rightarrow>
          (case insert_text_at_position tu s rel l c x of
             (Inl err, s') \<Rightarrow> (Inl err, s')
           | (Inr _, s') \<Rightarrow> (Inr (), s'))
      | Delete a b \<Rightarrow>
          (case delete_text_between_positions tu s rel a b of
             (Inl err, s') \<Rightarrow> (Inl err, s')
           | (Inr _, s') \<Rightarrow> (Inr (), s')))"

fun apply_edits :: "text_utils \<Rightarrow> language_server \<Rightarrow> string \<Rightarrow> edit list \<Rightarrow> unit result" where
  "apply_edits tu s rel [] = (Inr (), s)"
| "apply_edits tu s rel (e # es) =
     (case apply_edit tu s rel e of
        (Inl err, s') \<Rightarrow> (Inl err, s')
      | (Inr _, s') \<Rightarrow> apply_edits tu s' rel es)"

text \<open>
  The same edits on a plain string, as the spec words the reference behaviour: an insert
  puts the text at the offset of its position, a delete removes what lies between the
  offsets of its two positions.
\<close>

definition edit_string :: "text_utils \<Rightarrow> string \<Rightarrow> edit \<Rightarrow> error + string" where
  "edit_string tu t e =
     (case e of
        Insert l c x \<Rightarrow>
          (case get_index_from_line_col tu t l c of
             Inl err \<Rightarrow> Inl err
           | Inr i \<Rightarrow> Inr (py_slice_to t i @ x @ py_slice_from t i))
      | Delete a b \<Rightarrow>
          (case get_index_from_line_col tu t (line a) (character a) of
             Inl err \<Rightarrow> Inl err
           | Inr i \<Rightarrow>
               (case get_index_from_line_col tu t (line b) (character b) of
                  Inl err \<Rightarrow> Inl err
                | Inr j \<Rightarrow> Inr (py_slice_to t i @ py_slice_from t j))))"

fun edit_string_all :: "text_utils \<Rightarrow> string \<Rightarrow> edit list \<Rightarrow> error + string" where
  "edit_string_all tu t [] = Inr t"
| "edit_string_all tu t (e # es) =
     (case edit_string tu t e of
        Inl err \<Rightarrow> Inl err
      | Inr t' \<Rightarrow> edit_string_all tu t' es)"

section \<open>Construction and the symbol cache file\<close>

text \<open>\<open>load_cache\<close> (source lines 1010 to 1015): an absent file leaves the cache as it is.\<close>

definition load_cache :: "language_server \<Rightarrow> language_server" where
  "load_cache s =
     (case cache_file s of
        None \<Rightarrow> s
      | Some c \<Rightarrow> s\<lparr>document_symbols_cache := c\<rparr>)"

text \<open>
  \<open>LanguageServer.__init__\<close> (source lines 158 to 184) on the given root, language id and
  outside world: the cache starts empty, \<open>load_cache\<close> runs, then the flag is assigned.
\<close>

definition init :: "string \<Rightarrow> string \<Rightarrow> (string \<rightharpoonup> string) \<Rightarrow> symbols_cache option \<Rightarrow> language_server" where
  "init root lang files cfile =
     (load_cache
        \<lparr>server_started = False,
         repository_root_path = root,
         language_id = lang,
         open_file_buffers = Map.empty,
         document_symbols_cache = Map.empty,
         cache_has_changed = PyBool False,
         notified = [],
         disk = files,
         cache_file = cfile\<rparr>)
     \<lparr>cache_has_changed := BoolType\<rparr>"

text \<open>
  \<open>save_cache\<close> (source lines 1003 to 1008): when the flag is true the cache is pickled to
  the file.
\<close>

definition save_cache :: "language_server \<Rightarrow> language_server" where
  "save_cache s =
     (if truthy (cache_has_changed s)
      then s\<lparr>cache_file := Some (document_symbols_cache s)\<rparr>
      else s)"

text \<open>\<open>start_server\<close> (source lines 201 to 203): entering and leaving the context.\<close>

definition start_server_enter :: "language_server \<Rightarrow> language_server" where
  "start_server_enter s = s\<lparr>server_started := True\<rparr>"

definition start_server_exit :: "language_server \<Rightarrow> language_server" where
  "start_server_exit s = s\<lparr>server_started := False\<rparr>"

text \<open>
  \<open>SyncLanguageServer.stop\<close> (source lines 1312 to 1325), as far as the object is concerned:
  the server context is left and the cache is saved.
\<close>

definition stop :: "language_server \<Rightarrow> language_server" where
  "stop s = save_cache (start_server_exit s)"

section \<open>The language server's answers\<close>

text \<open>
  What \<open>self.server.send\<close> returns is not computed by this file: the answers of the
  language server process are parameters of the model. A document-symbol or references
  answer that is not a list is \<open>None\<close>; the completion answers are indexed by the number
  of completion requests sent before.
\<close>

record text_edit =
  te_newText :: "string option"
  te_range :: "lsp_range option"
  te_insert :: "lsp_range option"

record lsp_completion_item =
  ci_label :: "string option"
  ci_kind :: "int option"
  ci_detail :: "string option"
  ci_insertText :: "string option"
  ci_textEdit :: "text_edit option"

datatype completion_response =
    RespNone
  | RespList "lsp_completion_item list"
  | RespDict (isIncomplete: bool) (resp_items: "lsp_completion_item list option")

record lsp_send =
  send_document_symbol :: "string \<Rightarrow> symbol list option"
  send_references :: "string \<Rightarrow> int \<Rightarrow> int \<Rightarrow> location list option"
  send_completion :: "nat \<Rightarrow> completion_response"

section \<open>Document symbols\<close>

text \<open>
  The values of \<open>multilspy_types.SymbolKind\<close> (not among the sources) that the file names;
  the numbers are those of the protocol, three of which the docstring of
  \<open>request_containing_symbol\<close> quotes.
\<close>

definition SymbolKind_Class :: int where "SymbolKind_Class = 5"
definition SymbolKind_Method :: int where "SymbolKind_Method = 6"
definition SymbolKind_Function :: int where "SymbolKind_Function = 12"
definition SymbolKind_Variable :: int where "SymbolKind_Variable = 13"

text \<open>
  \<open>visit_tree_nodes_and_build_tree_repr\<close> (source lines 652 to 660): the node without
  its \<open>children\<close> key, then the lists of its children in order.
\<close>

fun visit_tree_nodes_and_build_tree_repr :: "symbol \<Rightarrow> symbol list" where
  "visit_tree_nodes_and_build_tree_repr (Symbol n k r sr loc None) =
     [Symbol n k r sr loc None]"
| "visit_tree_nodes_and_build_tree_repr (Symbol n k r sr loc (Some children)) =
     Symbol n k r sr loc None # concat (map visit_tree_nodes_and_build_tree_repr children)"

text \<open>The loop over the answer (source lines 644 to 664), \<open>ret\<close> being the list so far.\<close>

fun document_symbols_loop :: "symbol list \<Rightarrow> symbol list \<Rightarrow> error + symbol list" where
  "document_symbols_loop ret [] = Inr ret"
| "document_symbols_loop ret (item # items) =
     (if sym_name item = None then Inl AssertionError
      else if sym_kind item = None then Inl AssertionError
      else if sym_children item \<noteq> None
      then document_symbols_loop (ret @ visit_tree_nodes_and_build_tree_repr item) items
      else document_symbols_loop (ret @ [item]) items)"

text \<open>
  What the \<open>with\<close> block of \<open>request_document_symbols\<close> leaves: the cached result it
  returned, or the server's answer.
\<close>

datatype symbols_source = Cached document_symbols_result | Answer "symbol list option"

text \<open>
  The \<open>with\<close> block of \<open>request_document_symbols\<close> (source lines 622 to 639): the cached
  result when the cached hash is the buffer's, the server's answer otherwise, and next to
  it \<open>file_data.content_hash\<close>, which the method reads again after the block. No method
  assigns that field after construction, so its value at the \<open>yield\<close> is the value read.
\<close>

definition document_symbols_source ::
  "lsp_send \<Rightarrow> language_server \<Rightarrow> string \<Rightarrow> (symbols_source \<times> string) result" where
  "document_symbols_source srv s rel =
     with_open_file s rel (\<lambda>file_data s1.
       (case document_symbols_cache s1 rel of
          None \<Rightarrow>
            (Inr (Answer (send_document_symbol srv (file_uri s1 rel)),
                  content_hash file_data), s1)
        | Some (file_hash, result) \<Rightarrow>
            if file_hash = content_hash file_data
            then (Inr (Cached result, content_hash file_data), s1)
            else (Inr (Answer (send_document_symbol srv (file_uri s1 rel)),
                       content_hash file_data), s1)))"

text \<open>\<open>request_document_symbols\<close> (source lines 612 to 670).\<close>

definition request_document_symbols ::
  "lsp_send \<Rightarrow> language_server \<Rightarrow> string \<Rightarrow> document_symbols_result result" where
  "request_document_symbols srv s rel =
     (case document_symbols_source srv s rel of
        (Inl e, s2) \<Rightarrow> (Inl e, s2)
      | (Inr (Cached result, _), s2) \<Rightarrow> (Inr result, s2)
      | (Inr (Answer None, _), s2) \<Rightarrow> (Inl AssertionError, s2)
      | (Inr (Answer (Some response), file_hash), s2) \<Rightarrow>
          (case document_symbols_loop [] response of
             Inl e \<Rightarrow> (Inl e, s2)
           | Inr ret \<Rightarrow>
               (Inr (ret, None),
                s2\<lparr>document_symbols_cache :=
                     (document_symbols_cache s2)(rel \<mapsto> (file_hash, (ret, None))),
                   cache_has_changed := PyBool True\<rparr>)))"

text \<open>
  The depth-first preorder walk of the spec, written on the trees themselves: a node
  before its children, the children from left to right, and each node as the entry it
  becomes, its \<open>children\<close> key removed.
\<close>

definition detach :: "symbol \<Rightarrow> symbol" where
  "detach node =
     Symbol (sym_name node) (sym_kind node) (sym_range node) (sym_selectionRange node)
       (sym_location node) None"

fun preorder :: "symbol \<Rightarrow> symbol list" where
  "preorder (Symbol n k r sr loc children) =
     Symbol n k r sr loc children #
       concat (map preorder (case children of None \<Rightarrow> [] | Some cs \<Rightarrow> cs))"

definition preorder_entries :: "symbol list \<Rightarrow> symbol list" where
  "preorder_entries response = map detach (concat (map preorder response))"

section \<open>The containing symbol\<close>

text \<open>
  The loop that gives every symbol a \<open>location\<close> (source lines 880 to 895). It assigns
  into the dictionaries of the list that \<open>request_document_symbols\<close> returned, which is
  the list the cache holds: the result is the list as the loop left it and the exception,
  if one stopped the loop.
\<close>

definition add_location :: "string \<Rightarrow> string \<Rightarrow> symbol \<Rightarrow> error + symbol" where
  "add_location absolute rel symb =
     (case symb of Symbol n k r sr loc ch \<Rightarrow>
        (case loc of
           None \<Rightarrow>
             (case r of
                None \<Rightarrow> Inl (KeyError ''range'')
              | Some rng \<Rightarrow>
                  Inr (Symbol n k r sr
                         (Some \<lparr>loc_uri = Some (''file:/'' @ absolute), loc_range = Some rng,
                                absolutePath = Some absolute, relativePath = Some rel\<rparr>) ch))
         | Some lc \<Rightarrow>
             (case loc_range lc of
                None \<Rightarrow> Inl AssertionError
              | Some _ \<Rightarrow>
                  Inr (Symbol n k r sr
                         (Some (lc\<lparr>absolutePath := Some absolute, relativePath := Some rel,
                                  loc_uri := Some (''file:/'' @ absolute)\<rparr>)) ch))))"

fun add_locations :: "string \<Rightarrow> string \<Rightarrow> symbol list \<Rightarrow> symbol list \<times> error option" where
  "add_locations absolute rel [] = ([], None)"
| "add_locations absolute rel (symb # symbs) =
     (case add_location absolute rel symb of
        Inl e \<Rightarrow> (symb # symbs, Some e)
      | Inr symb' \<Rightarrow>
          (case add_locations absolute rel symbs of
             (symbs', err) \<Rightarrow> (symb' # symbs', err)))"

definition store_symbols :: "symbols_cache \<Rightarrow> string \<Rightarrow> symbol list \<Rightarrow> symbols_cache" where
  "store_symbols cache rel symbols =
     (case cache rel of
        None \<Rightarrow> cache
      | Some (h, (_, tree)) \<Rightarrow> cache(rel \<mapsto> (h, (symbols, tree))))"

text \<open>\<open>symbol["location"]["range"]\<close>.\<close>

definition location_range :: "symbol \<Rightarrow> error + lsp_range" where
  "location_range symb =
     (case sym_location symb of
        None \<Rightarrow> Inl (KeyError ''location'')
      | Some lc \<Rightarrow>
          (case loc_range lc of
             None \<Rightarrow> Inl (KeyError ''range'')
           | Some r \<Rightarrow> Inr r))"

text \<open>\<open>is_position_in_range\<close> (source lines 904 to 917).\<close>

definition is_position_in_range :: "bool \<Rightarrow> int option \<Rightarrow> int \<Rightarrow> lsp_range \<Rightarrow> bool" where
  "is_position_in_range strict column l range_d =
     (let start = range_start range_d; end_pos = range_end range_d
      in if strict
         then (line end_pos \<ge> l \<and> l > line start)
              \<and> (case column of None \<Rightarrow> True | Some c \<Rightarrow> c > character start)
         else (line end_pos \<ge> l \<and> l \<ge> line start)
              \<and> (case column of None \<Rightarrow> True | Some c \<Rightarrow> c \<ge> character start))"

definition container_symbol_kinds :: "int set" where
  "container_symbol_kinds = {SymbolKind_Method, SymbolKind_Function, SymbolKind_Class}"

text \<open>
  The comprehension \<open>candidate_containers\<close> (source lines 920 to 922): a symbol without
  \<open>kind\<close> raises; the range is looked at only for a symbol of a container kind.
\<close>

definition is_candidate_container :: "symbol \<Rightarrow> error + bool" where
  "is_candidate_container symb =
     (case sym_kind symb of
        None \<Rightarrow> Inl (KeyError ''kind'')
      | Some k \<Rightarrow>
          if k \<in> container_symbol_kinds
          then (case location_range symb of
                  Inl e \<Rightarrow> Inl e
                | Inr r \<Rightarrow> Inr (line (range_start r) \<noteq> line (range_end r)))
          else Inr False)"

fun filter_raising :: "('a \<Rightarrow> error + bool) \<Rightarrow> 'a list \<Rightarrow> error + 'a list" where
  "filter_raising p [] = Inr []"
| "filter_raising p (x # xs) =
     (case p x of
        Inl e \<Rightarrow> Inl e
      | Inr keep \<Rightarrow>
          (case filter_raising p xs of
             Inl e \<Rightarrow> Inl e
           | Inr ys \<Rightarrow> Inr (if keep then x # ys else ys)))"

text \<open>
  The loop that collects \<open>containing_symbols\<close> (source lines 932 to 937); each symbol is
  kept with the range that was looked up for it.
\<close>

fun containing_symbols_loop ::
  "bool \<Rightarrow> int option \<Rightarrow> int \<Rightarrow> symbol list \<Rightarrow> error + (symbol \<times> lsp_range) list" where
  "containing_symbols_loop strict column l [] = Inr []"
| "containing_symbols_loop strict column l (symb # symbs) =
     (case location_range symb of
        Inl e \<Rightarrow> Inl e
      | Inr s_range \<Rightarrow>
          (case containing_symbols_loop strict column l symbs of
             Inl e \<Rightarrow> Inl e
           | Inr rest \<Rightarrow>
               Inr (if \<not> is_position_in_range strict column l s_range then rest
                    else (symb, s_range) # rest)))"

definition start_line_key :: "symbol \<times> lsp_range \<Rightarrow> int" where
  "start_line_key p = line (range_start (snd p))"

text \<open>Source lines 897 to 943: from the symbols with locations to the result.\<close>

definition select_container ::
  "bool \<Rightarrow> int option \<Rightarrow> int \<Rightarrow> symbol list \<Rightarrow> error + symbol option" where
  "select_container strict column l symbols =
     (case filter_raising is_candidate_container symbols of
        Inl e \<Rightarrow> Inl e
      | Inr containers \<Rightarrow>
          let var_containers = filter (\<lambda>s. sym_kind s = Some SymbolKind_Variable) symbols;
              candidate_containers = containers @ var_containers
          in if candidate_containers = [] then Inr None
             else
               (case containing_symbols_loop strict column l candidate_containers of
                  Inl e \<Rightarrow> Inl e
                | Inr [] \<Rightarrow> Inr None
                | Inr (c # cs) \<Rightarrow> Inr (Some (fst (py_max_from start_line_key c cs)))))"

text \<open>
  \<open>request_containing_symbol\<close> (source lines 830 to 943). The line test reads the file
  from disk again, inside an \<open>open_file\<close> scope.
\<close>

definition request_containing_symbol ::
  "lsp_send \<Rightarrow> language_server \<Rightarrow> string \<Rightarrow> int \<Rightarrow> int option \<Rightarrow> bool \<Rightarrow> symbol option result" where
  "request_containing_symbol srv s rel l column strict =
     (let absolute = absolute_file_path (repository_root_path s) rel
      in case with_open_file s rel (\<lambda>_ s1.
                (case read_file s1 absolute of
                   Inl e \<Rightarrow> (Inl e, s1)
                 | Inr content \<Rightarrow>
                     (case py_index (py_split newline content) l of
                        Inl e \<Rightarrow> (Inl e, s1)
                      | Inr text_line \<Rightarrow> (Inr (py_strip text_line = []), s1)))) of
           (Inl e, s2) \<Rightarrow> (Inl e, s2)
         | (Inr True, s2) \<Rightarrow> (Inr None, s2)
         | (Inr False, s2) \<Rightarrow>
             (case request_document_symbols srv s2 rel of
                (Inl e, s3) \<Rightarrow> (Inl e, s3)
              | (Inr (symbols, _), s3) \<Rightarrow>
                  (case add_locations absolute rel symbols of
                     (symbols', err) \<Rightarrow>
                       let s4 = s3\<lparr>document_symbols_cache :=
                                   store_symbols (document_symbols_cache s3) rel symbols'\<rparr>
                       in (case err of
                             Some e \<Rightarrow> (Inl e, s4)
                           | None \<Rightarrow> (select_container strict column l symbols', s4)))))"

text \<open>\<open>request_container_of_symbol\<close> (source lines 945 to 955).\<close>

definition request_container_of_symbol ::
  "lsp_send \<Rightarrow> language_server \<Rightarrow> symbol \<Rightarrow> symbol option result" where
  "request_container_of_symbol srv s symb =
     (case sym_location symb of
        None \<Rightarrow> (Inl AssertionError, s)
      | Some lc \<Rightarrow>
          (case (relativePath lc, loc_range lc) of
             (Some p, Some r) \<Rightarrow>
               request_containing_symbol srv s p (line (range_start r))
                 (Some (character (range_start r))) True
           | (None, _) \<Rightarrow> (Inl (KeyError ''relativePath''), s)
           | (_, None) \<Rightarrow> (Inl (KeyError ''range''), s)))"

section \<open>References and referencing symbols\<close>

text \<open>
  Modelled from the spec: \<open>PathUtils.uri_to_path\<close> (module \<open>multilspy_utils\<close>, not among
  the sources), "received URIs are decoded to native paths", and the relative path
  "against the repository root using lexical relative-path rules", for a \<open>file://\<close> URI
  without percent-encoding and a file below the root.
\<close>

definition uri_to_path :: "string \<Rightarrow> string" where
  "uri_to_path u = (if take 7 u = ''file://'' then drop 7 u else u)"

definition relpath :: "string \<Rightarrow> string \<Rightarrow> string" where
  "relpath p root =
     (if take (length root + 1) p = root @ ''/'' then drop (length root + 1) p else p)"

text \<open>The loop of \<open>request_references\<close> over the answer (source lines 503 to 514).\<close>

fun references_loop :: "string \<Rightarrow> location list \<Rightarrow> error + location list" where
  "references_loop root [] = Inr []"
| "references_loop root (item # items) =
     (case loc_uri item of
        None \<Rightarrow> Inl AssertionError
      | Some u \<Rightarrow>
          if loc_range item = None then Inl AssertionError
          else
            (case references_loop root items of
               Inl e \<Rightarrow> Inl e
             | Inr rest \<Rightarrow>
                 Inr (item\<lparr>absolutePath := Some (uri_to_path u),
                            relativePath := Some (relpath (uri_to_path u) root)\<rparr> # rest)))"

text \<open>\<open>request_references\<close> (source lines 468 to 516).\<close>

definition request_references ::
  "lsp_send \<Rightarrow> language_server \<Rightarrow> string \<Rightarrow> int \<Rightarrow> int \<Rightarrow> location list result" where
  "request_references srv s rel l c =
     (if \<not> server_started s then (Inl (MultilspyException ''Language Server not started''), s)
      else
        (case with_open_file s rel (\<lambda>_ s1.
                (Inr (send_references srv (file_uri s1 rel) l c), s1)) of
           (Inl e, s2) \<Rightarrow> (Inl e, s2)
         | (Inr None, s2) \<Rightarrow> (Inl AssertionError, s2)
         | (Inr (Some response), s2) \<Rightarrow>
             (references_loop (repository_root_path s2) response, s2)))"

text \<open>
  The fallback for a reference without a containing symbol (source lines 782 to 791):
  the first symbol of the file that has the wanted name and the kind Variable, copied and
  given the reference as its location.
\<close>

fun find_variable_symbol :: "string \<Rightarrow> symbol list \<Rightarrow> error + symbol option" where
  "find_variable_symbol wanted [] = Inr None"
| "find_variable_symbol wanted (symb # symbs) =
     (case sym_name symb of
        None \<Rightarrow> Inl (KeyError ''name'')
      | Some n \<Rightarrow>
          if n = wanted
          then (case sym_kind symb of
                  None \<Rightarrow> Inl (KeyError ''kind'')
                | Some k \<Rightarrow>
                    if k = SymbolKind_Variable then Inr (Some symb)
                    else find_variable_symbol wanted symbs)
          else find_variable_symbol wanted symbs)"

definition relocate :: "symbol \<Rightarrow> location \<Rightarrow> symbol" where
  "relocate symb ref =
     Symbol (sym_name symb) (sym_kind symb) (loc_range ref) (sym_selectionRange symb)
       (Some ref) (sym_children symb)"

definition attribute_fallback ::
  "lsp_send \<Rightarrow> language_server \<Rightarrow> LSPFileBuffer \<Rightarrow> location \<Rightarrow> string \<Rightarrow> int \<Rightarrow> symbol option result" where
  "attribute_fallback srv s file_data ref ref_path ref_line =
     (case py_index (py_split newline (contents file_data)) ref_line of
        Inl e \<Rightarrow> (Inl e, s)
      | Inr ref_text \<Rightarrow>
          if CHR ''.'' \<in> set ref_text
          then
            (case request_document_symbols srv s ref_path of
               (Inl e, s1) \<Rightarrow> (Inl e, s1)
             | (Inr (all_symbols, _), s1) \<Rightarrow>
                 (case find_variable_symbol (hd (py_split CHR ''.'' ref_text)) all_symbols of
                    Inl e \<Rightarrow> (Inl e, s1)
                  | Inr None \<Rightarrow> (Inr None, s1)
                  | Inr (Some symb) \<Rightarrow> (Inr (Some (relocate symb ref)), s1)))
          else (Inr None, s))"

text \<open>
  The containing symbol of one reference (source lines 765 to 791). The buffer yielded by
  \<open>open_file\<close> is read after \<open>request_containing_symbol\<close> returned; that method does not
  assign \<open>contents\<close>, so the yielded value is the one read.
\<close>

definition containing_symbol_of_reference ::
  "lsp_send \<Rightarrow> language_server \<Rightarrow> LSPFileBuffer \<Rightarrow> location \<Rightarrow> string \<Rightarrow> int \<Rightarrow> int \<Rightarrow> symbol option result" where
  "containing_symbol_of_reference srv s file_data ref ref_path ref_line ref_col =
     (case request_containing_symbol srv s ref_path ref_line (Some ref_col) False of
        (Inl e, s1) \<Rightarrow> (Inl e, s1)
      | (Inr (Some symb), s1) \<Rightarrow> (Inr (Some symb), s1)
      | (Inr None, s1) \<Rightarrow> attribute_fallback srv s1 file_data ref ref_path ref_line)"

text \<open>
  The test for a self-reference (source lines 797 to 801); \<open>and\<close> looks at the selection
  range only when the paths are equal.
\<close>

definition is_self_reference :: "string \<Rightarrow> int \<Rightarrow> int \<Rightarrow> symbol \<Rightarrow> error + bool" where
  "is_self_reference relative_file_path ref_line ref_col symb =
     (case sym_location symb of
        None \<Rightarrow> Inl (KeyError ''location'')
      | Some lc \<Rightarrow>
          (case relativePath lc of
             None \<Rightarrow> Inl (KeyError ''relativePath'')
           | Some p \<Rightarrow>
               if p = relative_file_path
               then (case sym_selectionRange symb of
                       None \<Rightarrow> Inl (KeyError ''selectionRange'')
                     | Some sr \<Rightarrow>
                         Inr (line (range_start sr) = ref_line
                              \<and> character (range_start sr) = ref_col))
               else Inr False))"

text \<open>
  The test for an import (source lines 814 to 818), after \<open>not include_imports\<close>: it needs
  an incoming symbol recorded so far, and compares names, then kinds.
\<close>

definition is_import_of :: "symbol option \<Rightarrow> symbol \<Rightarrow> error + bool" where
  "is_import_of incoming_symbol symb =
     (case incoming_symbol of
        None \<Rightarrow> Inr False
      | Some incoming \<Rightarrow>
          (case (sym_name symb, sym_name incoming) of
             (Some n, Some m) \<Rightarrow>
               if n = m
               then (case (sym_kind symb, sym_kind incoming) of
                       (Some k, Some j) \<Rightarrow> Inr (k = j)
                     | _ \<Rightarrow> Inl (KeyError ''kind''))
               else Inr False
           | _ \<Rightarrow> Inl (KeyError ''name'')))"

text \<open>
  What one turn of the loop does with the containing symbol it found (source lines 792 to
  826), on the pair of \<open>result\<close> and \<open>incoming_symbol\<close>. The debug message of the skipped
  self-reference formats the symbol's name.
\<close>

definition referencing_step ::
  "string \<Rightarrow> bool \<Rightarrow> bool \<Rightarrow> int \<Rightarrow> int \<Rightarrow> symbol option \<Rightarrow> symbol list \<times> symbol option
     \<Rightarrow> error + symbol list \<times> symbol option" where
  "referencing_step relative_file_path include_imports include_self ref_line ref_col
       containing_symbol acc =
     (case containing_symbol of
        None \<Rightarrow> Inr acc
      | Some symb \<Rightarrow>
          (case is_self_reference relative_file_path ref_line ref_col symb of
             Inl e \<Rightarrow> Inl e
           | Inr True \<Rightarrow>
               if include_self then Inr (fst acc @ [symb], Some symb)
               else if sym_name symb = None then Inl (KeyError ''name'')
               else Inr (fst acc, Some symb)
           | Inr False \<Rightarrow>
               if \<not> include_imports
               then (case is_import_of (snd acc) symb of
                       Inl e \<Rightarrow> Inl e
                     | Inr True \<Rightarrow> Inr acc
                     | Inr False \<Rightarrow> Inr (fst acc @ [symb], snd acc))
               else Inr (fst acc @ [symb], snd acc)))"

text \<open>\<open>ref["relativePath"]\<close> and the start of \<open>ref["range"]\<close> (source lines 759 to 761).\<close>

definition reference_position :: "location \<Rightarrow> error + string \<times> int \<times> int" where
  "reference_position ref =
     (case relativePath ref of
        None \<Rightarrow> Inl (KeyError ''relativePath'')
      | Some p \<Rightarrow>
          (case loc_range ref of
             None \<Rightarrow> Inl (KeyError ''range'')
           | Some r \<Rightarrow> Inr (p, line (range_start r), character (range_start r))))"

text \<open>The loop over the references (source lines 758 to 826).\<close>

fun referencing_loop ::
  "lsp_send \<Rightarrow> string \<Rightarrow> bool \<Rightarrow> bool \<Rightarrow> location list \<Rightarrow> symbol list \<times> symbol option
     \<Rightarrow> language_server \<Rightarrow> symbol list result" where
  "referencing_loop srv relative_file_path include_imports include_self [] acc s =
     (Inr (fst acc), s)"
| "referencing_loop srv relative_file_path include_imports include_self (ref # refs) acc s =
     (case reference_position ref of
        Inl e \<Rightarrow> (Inl e, s)
      | Inr (ref_path, ref_line, ref_col) \<Rightarrow>
          (case with_open_file s ref_path (\<lambda>file_data s1.
                  (case containing_symbol_of_reference srv s1 file_data ref ref_path
                          ref_line ref_col of
                     (Inl e, s2) \<Rightarrow> (Inl e, s2)
                   | (Inr containing_symbol, s2) \<Rightarrow>
                       (referencing_step relative_file_path include_imports include_self
                          ref_line ref_col containing_symbol acc, s2))) of
             (Inl e, s3) \<Rightarrow> (Inl e, s3)
           | (Inr acc', s3) \<Rightarrow>
               referencing_loop srv relative_file_path include_imports include_self refs
                 acc' s3))"

text \<open>\<open>request_referencing_symbols\<close> (source lines 720 to 828).\<close>

definition request_referencing_symbols ::
  "lsp_send \<Rightarrow> language_server \<Rightarrow> string \<Rightarrow> int \<Rightarrow> int \<Rightarrow> bool \<Rightarrow> bool \<Rightarrow> symbol list result" where
  "request_referencing_symbols srv s relative_file_path l c include_imports include_self =
     (if \<not> server_started s then (Inl (MultilspyException ''Language Server not started''), s)
      else
        (case request_references srv s relative_file_path l c of
           (Inl e, s1) \<Rightarrow> (Inl e, s1)
         | (Inr references, s1) \<Rightarrow>
             if references = [] then (Inr [], s1)
             else referencing_loop srv relative_file_path include_imports include_self
                    references ([], None) s1))"

section \<open>Completions\<close>

text \<open>
  \<open>LSPTypes.CompletionItemKind.Keyword\<close> (module \<open>lsp_types\<close>, not among the sources), with
  the number the protocol gives it.
\<close>

definition CompletionItemKind_Keyword :: int where
  "CompletionItemKind_Keyword = 14"

text \<open>A \<open>multilspy_types.CompletionItem\<close> as the method builds it.\<close>

record completion_item =
  completionText :: string
  completion_kind :: int
  detail :: "string option"

text \<open>
  The answer as the loop keeps it (source lines 545 to 549): \<open>None\<close>, or a dictionary
  with \<open>isIncomplete\<close> and maybe \<open>items\<close>; a list becomes a complete completion list.
\<close>

type_synonym completion_list = "bool \<times> lsp_completion_item list option"

definition as_completion_list :: "completion_response \<Rightarrow> completion_list option" where
  "as_completion_list response =
     (case response of
        RespNone \<Rightarrow> None
      | RespList its \<Rightarrow> Some (False, Some its)
      | RespDict incomplete its \<Rightarrow> Some (incomplete, its))"

text \<open>The condition of the \<open>while\<close> (source line 543).\<close>

definition retry_wanted :: "completion_list option \<Rightarrow> nat \<Rightarrow> bool" where
  "retry_wanted response num_retries =
     (case response of
        None \<Rightarrow> True
      | Some (incomplete, _) \<Rightarrow> incomplete \<and> num_retries < 30)"

text \<open>
  The retry loop (source lines 542 to 550), from the current \<open>response\<close> and
  \<open>num_retries\<close> to their values when the loop ends; \<open>num_retries\<close> counts the requests
  sent. Nothing bounds the loop while the answers are \<open>None\<close>, so it is a partial
  function: \<open>None\<close> is a loop that never ends. \<open>completions_available.wait()\<close> is taken to
  return: the event is set by the code that starts the language server.
\<close>

partial_function (option) completion_loop ::
  "(nat \<Rightarrow> completion_response) \<Rightarrow> completion_list option \<Rightarrow> nat
     \<Rightarrow> (completion_list option \<times> nat) option" where
  "completion_loop send response num_retries =
     (if retry_wanted response num_retries
      then completion_loop send (as_completion_list (send num_retries)) (num_retries + 1)
      else Some (response, num_retries))"

text \<open>
  One turn of the loop that builds the completion items (source lines 566 to 605), for
  the requested position.
\<close>

definition build_completion_item :: "int \<Rightarrow> int \<Rightarrow> lsp_completion_item \<Rightarrow> error + completion_item" where
  "build_completion_item l c item =
     (if ci_insertText item = None \<and> ci_textEdit item = None then Inl AssertionError
      else
        (case ci_kind item of
           None \<Rightarrow> Inl AssertionError
         | Some k \<Rightarrow>
             (case ci_label item of
                Some lbl \<Rightarrow>
                  Inr \<lparr>completionText = lbl, completion_kind = k, detail = ci_detail item\<rparr>
              | None \<Rightarrow>
                  (case ci_insertText item of
                     Some ins \<Rightarrow>
                       Inr \<lparr>completionText = ins, completion_kind = k, detail = ci_detail item\<rparr>
                   | None \<Rightarrow>
                       (case ci_textEdit item of
                          None \<Rightarrow> Inl AssertionError
                        | Some te \<Rightarrow>
                            (case te_newText te of
                               Some new_text \<Rightarrow>
                                 Inr \<lparr>completionText = new_text, completion_kind = k,
                                      detail = ci_detail item\<rparr>
                             | None \<Rightarrow>
                                 (case te_range te of
                                    Some r \<Rightarrow>
                                      if line (range_start r) = l
                                         \<and> character (range_start r) = c
                                         \<and> line (range_start r) = line (range_end r)
                                         \<and> character (range_start r) = character (range_end r)
                                      then Inl (KeyError ''newText'')
                                      else Inl AssertionError
                                  | None \<Rightarrow> Inl AssertionError)))))))"

fun build_completion_items ::
  "int \<Rightarrow> int \<Rightarrow> completion_item list \<Rightarrow> lsp_completion_item list \<Rightarrow> error + completion_item list" where
  "build_completion_items l c completions_list [] = Inr completions_list"
| "build_completion_items l c completions_list (item # items) =
     (case build_completion_item l c item of
        Inl e \<Rightarrow> Inl e
      | Inr completion \<Rightarrow> build_completion_items l c (completions_list @ [completion]) items)"

text \<open>The comprehension that drops the keywords (source line 562).\<close>

definition not_keyword :: "lsp_completion_item \<Rightarrow> error + bool" where
  "not_keyword item =
     (case ci_kind item of
        None \<Rightarrow> Inl (KeyError ''kind'')
      | Some k \<Rightarrow> Inr (k \<noteq> CompletionItemKind_Keyword))"

text \<open>
  Source lines 553 to 610, from the answer the loop ended with. Without \<open>items\<close> the
  loop over the dictionary meets its keys, and indexing a string with \<open>"kind"\<close> is a
  \<open>TypeError\<close>. The last statement sends the items through a Python \<open>set\<close> of their
  JSON texts: equal items collapse into one, and the order of the returned list is the
  iteration order of that set, which the language does not fix. \<open>remdups\<close> stands for
  it; no statement below depends on the order it picks.
\<close>

definition completions_of_response ::
  "int \<Rightarrow> int \<Rightarrow> bool \<Rightarrow> completion_list option \<Rightarrow> error + completion_item list" where
  "completions_of_response l c allow_incomplete response =
     (case response of
        None \<Rightarrow> Inr []
      | Some (incomplete, its) \<Rightarrow>
          if incomplete \<and> \<not> allow_incomplete then Inr []
          else
            (case its of
               None \<Rightarrow> Inl TypeError
             | Some response_items \<Rightarrow>
                 (case filter_raising not_keyword response_items of
                    Inl e \<Rightarrow> Inl e
                  | Inr kept \<Rightarrow>
                      (case build_completion_items l c [] kept of
                         Inl e \<Rightarrow> Inl e
                       | Inr completions_list \<Rightarrow> Inr (remdups completions_list)))))"

text \<open>
  \<open>request_completions\<close> (source lines 518 to 610). The whole body runs inside the
  \<open>open_file\<close> scope; the retry loop touches nothing of the object.
\<close>

definition request_completions ::
  "lsp_send \<Rightarrow> language_server \<Rightarrow> string \<Rightarrow> int \<Rightarrow> int \<Rightarrow> bool \<Rightarrow> completion_item list result option" where
  "request_completions srv s rel l c allow_incomplete =
     (case open_file_enter s rel of
        (Inl e, s1) \<Rightarrow> Some (Inl e, s1)
      | (Inr _, _) \<Rightarrow>
          (case completion_loop (send_completion srv) None 0 of
             None \<Rightarrow> None
           | Some (response, _) \<Rightarrow>
               Some (with_open_file s rel (\<lambda>_ s1.
                       (completions_of_response l c allow_incomplete response, s1)))))"

section \<open>Concrete servers and answers\<close>

text \<open>
  A repository \<open>/repo\<close> with the file \<open>a.py\<close> of the spec's edit scenario, a server
  constructed on it and started, and the same server inside one \<open>open_file\<close> scope.
\<close>

definition hello_server :: language_server where
  "hello_server =
     start_server_enter
       (init ''/repo'' ''python'' [''/repo/a.py'' \<mapsto> ''hello\<newline>world''] None)"

definition hello_open :: language_server where
  "hello_open = snd (open_file_enter hello_server ''a.py'')"

definition hello_buffer :: LSPFileBuffer where
  "hello_buffer = new_LSPFileBuffer ''file:///repo/a.py'' ''hello\<newline>world'' 0 ''python'' 1"

text \<open>
  The file of the spec's containing-symbol scenario, \<open>c.py\<close>, and a hierarchical answer
  for it: the class \<open>C\<close> with the method \<open>m\<close> as its child and the variable \<open>x\<close> as the
  method's child.
\<close>

definition class_text :: string where
  "class_text = ''class C:\<newline>  def m(self):\<newline>    x = 1\<newline>''"

definition class_server :: language_server where
  "class_server =
     start_server_enter (init ''/repo'' ''python'' [''/repo/c.py'' \<mapsto> class_text] None)"

definition span :: "int \<Rightarrow> int \<Rightarrow> int \<Rightarrow> int \<Rightarrow> lsp_range" where
  "span l1 c1 l2 c2 =
     \<lparr>range_start = \<lparr>line = l1, character = c1\<rparr>,
      range_end = \<lparr>line = l2, character = c2\<rparr>\<rparr>"

definition node_x :: symbol where
  "node_x = Symbol (Some ''x'') (Some SymbolKind_Variable) (Some (span 2 4 2 9))
              (Some (span 2 4 2 5)) None None"

definition node_m :: symbol where
  "node_m = Symbol (Some ''m'') (Some SymbolKind_Method) (Some (span 1 2 2 9))
              (Some (span 1 6 1 7)) None (Some [node_x])"

definition node_C :: symbol where
  "node_C = Symbol (Some ''C'') (Some SymbolKind_Class) (Some (span 0 0 2 9))
              (Some (span 0 6 0 7)) None (Some [node_m])"

definition class_send :: lsp_send where
  "class_send =
     \<lparr>send_document_symbol = (\<lambda>u. Some [node_C]),
      send_references = (\<lambda>u l c. Some []),
      send_completion = (\<lambda>n. RespList [])\<rparr>"

text \<open>The class server after a scope on \<open>c.py\<close> was entered and left.\<close>

definition class_closed :: language_server where
  "class_closed =
     class_server\<lparr>notified :=
       [DidOpen ''file:///repo/c.py'' ''python'' 0 class_text, DidClose ''file:///repo/c.py'']\<rparr>"

section \<open>Edits of an open buffer\<close>

text \<open>
  What an edit method returns and leaves when it finds the buffer open, by the answer of
  the index helper.
\<close>

lemma file_uri_cong:
  "repository_root_path s' = repository_root_path s \<Longrightarrow> file_uri s' rel = file_uri s rel"
  by (simp add: file_uri_def)

lemma insert_text_success:
  assumes "server_started s"
    and "open_file_buffers s (file_uri s rel) = Some b"
    and "get_index_from_line_col tu (contents b) l c = Inr i"
  shows "insert_text_at_position tu s rel l c x =
           (Inr \<lparr>line = fst (get_updated_position_from_line_and_column_and_edit tu l c x),
                 character = snd (get_updated_position_from_line_and_column_and_edit tu l c x)\<rparr>,
            s\<lparr>open_file_buffers := (open_file_buffers s)(file_uri s rel \<mapsto>
                  b\<lparr>version := version b + 1,
                    contents := py_slice_to (contents b) i @ x @ py_slice_from (contents b) i\<rparr>),
              notified := notified s @
                [DidChange (uri b) (version b + 1)
                   \<lparr>range_start = \<lparr>line = l, character = c\<rparr>,
                    range_end = \<lparr>line = l, character = c\<rparr>\<rparr> x]\<rparr>)"
  using assms
  by (simp add: insert_text_at_position_def Let_def split: prod.splits)

lemma insert_text_failure:
  assumes "server_started s"
    and "open_file_buffers s (file_uri s rel) = Some b"
    and "get_index_from_line_col tu (contents b) l c = Inl e"
  shows "insert_text_at_position tu s rel l c x =
           (Inl e, s\<lparr>open_file_buffers := (open_file_buffers s)(file_uri s rel \<mapsto>
                  b\<lparr>version := version b + 1\<rparr>)\<rparr>)"
  using assms
  by (simp add: insert_text_at_position_def Let_def)

lemma delete_text_success:
  assumes "server_started s"
    and "open_file_buffers s (file_uri s rel) = Some b"
    and "get_index_from_line_col tu (contents b) (line p) (character p) = Inr i"
    and "get_index_from_line_col tu (contents b) (line q) (character q) = Inr j"
  shows "delete_text_between_positions tu s rel p q =
           (Inr (py_slice (contents b) i j),
            s\<lparr>open_file_buffers := (open_file_buffers s)(file_uri s rel \<mapsto>
                  b\<lparr>version := version b + 1,
                    contents := py_slice_to (contents b) i @ py_slice_from (contents b) j\<rparr>),
              notified := notified s @
                [DidChange (uri b) (version b + 1) \<lparr>range_start = p, range_end = q\<rparr> []]\<rparr>)"
  using assms
  by (simp add: delete_text_between_positions_def Let_def)

lemma delete_text_failure:
  assumes "server_started s"
    and "open_file_buffers s (file_uri s rel) = Some b"
    and "get_index_from_line_col tu (contents b) (line p) (character p) = Inl e
         \<or> (\<exists>i. get_index_from_line_col tu (contents b) (line p) (character p) = Inr i
               \<and> get_index_from_line_col tu (contents b) (line q) (character q) = Inl e)"
  shows "delete_text_between_positions tu s rel p q =
           (Inl e, s\<lparr>open_file_buffers := (open_file_buffers s)(file_uri s rel \<mapsto>
                  b\<lparr>version := version b + 1\<rparr>)\<rparr>)"
  using assms
  by (auto simp add: delete_text_between_positions_def Let_def)

text \<open>One edit on the server against the same edit on the buffer's text.\<close>

lemma apply_edit_agrees:
  assumes "server_started s"
    and "open_file_buffers s (file_uri s rel) = Some b"
  shows "case edit_string tu (contents b) e of
           Inr t' \<Rightarrow>
             (\<exists>s' b'. apply_edit tu s rel e = (Inr (), s')
                \<and> server_started s'
                \<and> repository_root_path s' = repository_root_path s
                \<and> open_file_buffers s' (file_uri s rel) = Some b'
                \<and> contents b' = t' \<and> version b' = version b + 1
                \<and> content_hash b' = content_hash b)
         | Inl err \<Rightarrow> fst (apply_edit tu s rel e) = Inl err"
proof (cases e)
  case (Insert l c x)
  show ?thesis
  proof (cases "get_index_from_line_col tu (contents b) l c")
    case (Inl err)
    with assms Insert show ?thesis
      by (simp add: edit_string_def apply_edit_def insert_text_failure)
  next
    case (Inr i)
    with assms Insert show ?thesis
      by (simp add: edit_string_def apply_edit_def insert_text_success)
  qed
next
  case (Delete p q)
  show ?thesis
  proof (cases "get_index_from_line_col tu (contents b) (line p) (character p)")
    case (Inl err)
    with assms Delete show ?thesis
      by (simp add: edit_string_def apply_edit_def delete_text_failure)
  next
    case i: (Inr i)
    show ?thesis
    proof (cases "get_index_from_line_col tu (contents b) (line q) (character q)")
      case (Inl err)
      with assms Delete i show ?thesis
        by (simp add: edit_string_def apply_edit_def delete_text_failure)
    next
      case (Inr j)
      with assms Delete i show ?thesis
        by (simp add: edit_string_def apply_edit_def delete_text_success)
    qed
  qed
qed

lemma apply_edits_agree:
  assumes "server_started s"
    and "open_file_buffers s (file_uri s rel) = Some b"
  shows "case edit_string_all tu (contents b) es of
           Inr t' \<Rightarrow>
             (\<exists>s' b'. apply_edits tu s rel es = (Inr (), s')
                \<and> open_file_buffers s' (file_uri s' rel) = Some b'
                \<and> contents b' = t' \<and> version b' = version b + int (length es)
                \<and> content_hash b' = content_hash b)
         | Inl err \<Rightarrow> fst (apply_edits tu s rel es) = Inl err"
  using assms
proof (induction es arbitrary: s b)
  case Nil
  then show ?case by simp
next
  case (Cons e es)
  show ?case
  proof (cases "edit_string tu (contents b) e")
    case (Inl err)
    with apply_edit_agrees [OF Cons.prems, of tu e]
    have "fst (apply_edit tu s rel e) = Inl err" by simp
    then show ?thesis using Inl by (cases "apply_edit tu s rel e") auto
  next
    case (Inr t1)
    with apply_edit_agrees [OF Cons.prems, of tu e]
    obtain s1 b1 where step: "apply_edit tu s rel e = (Inr (), s1)"
      and s1: "server_started s1" "repository_root_path s1 = repository_root_path s"
      and b1: "open_file_buffers s1 (file_uri s rel) = Some b1"
        "contents b1 = t1" "version b1 = version b + 1" "content_hash b1 = content_hash b"
      by auto
    have uri_eq: "file_uri s1 rel = file_uri s rel"
      using s1(2) by (rule file_uri_cong)
    from b1(1) uri_eq have open1: "open_file_buffers s1 (file_uri s1 rel) = Some b1"
      by simp
    from Cons.IH [OF s1(1) open1] b1 Inr step show ?thesis
      by (auto split: sum.splits)
  qed
qed

text \<open>Slices of a text into which \<open>x\<close> was inserted at offset \<open>k\<close>.\<close>

lemma py_bound_nonneg: "py_bound xs (int k) = min (length xs) k"
  by (simp add: py_bound_def)

lemma slices_after_insert:
  fixes t :: "'a list"
  assumes "k \<le> length t"
  shows "py_slice (take k t @ x @ drop k t) (int k) (int k + int (length x)) = x"
    and "py_slice_to (take k t @ x @ drop k t) (int k)
           @ py_slice_from (take k t @ x @ drop k t) (int k + int (length x)) = t"
  using assms
  by (simp_all add: py_slice_def py_slice_to_def py_slice_from_def py_bound_def min_def
      nat_add_distrib)

text \<open>The server of the edit scenario, evaluated.\<close>

lemma hello_server_eq:
  "hello_server =
     \<lparr>server_started = True, repository_root_path = ''/repo'', language_id = ''python'',
      open_file_buffers = Map.empty, document_symbols_cache = Map.empty,
      cache_has_changed = BoolType, notified = [],
      disk = [''/repo/a.py'' \<mapsto> ''hello\<newline>world''], cache_file = None\<rparr>"
  by (simp add: hello_server_def start_server_enter_def init_def load_cache_def)

lemma hello_open_eq:
  "hello_open =
     hello_server
       \<lparr>open_file_buffers := [''file:///repo/a.py'' \<mapsto> hello_buffer],
        notified := [DidOpen ''file:///repo/a.py'' ''python'' 0 ''hello\<newline>world'']\<rparr>"
  by (simp add: hello_open_def hello_server_eq hello_buffer_def open_file_enter_def
      absolute_file_path_def as_uri_def read_file_def Let_def)

lemma hello_open_facts:
  "server_started hello_open"
  "file_uri hello_open ''a.py'' = ''file:///repo/a.py''"
  "open_file_buffers hello_open ''file:///repo/a.py'' = Some hello_buffer"
  "contents hello_buffer = ''hello\<newline>world''"
  "version hello_buffer = 0"
  by (simp_all add: hello_open_eq hello_server_eq hello_buffer_def new_LSPFileBuffer_def
      file_uri_def absolute_file_path_def as_uri_def)

lemma insert_then_delete:
  assumes started: "server_started s"
    and opened: "open_file_buffers s (file_uri s rel) = Some b"
    and at: "get_index_from_line_col tu (contents b) l c = Inr i"
    and from_p: "get_index_from_line_col tu
                   (py_slice_to (contents b) i @ x @ py_slice_from (contents b) i)
                   (line p) (character p) = Inr (int (py_bound (contents b) i))"
    and to_q: "get_index_from_line_col tu
                 (py_slice_to (contents b) i @ x @ py_slice_from (contents b) i)
                 (line q) (character q) = Inr (int (py_bound (contents b) i) + int (length x))"
  shows "\<exists>pos s1 s2 b2.
           insert_text_at_position tu s rel l c x = (Inr pos, s1)
           \<and> delete_text_between_positions tu s1 rel p q = (Inr x, s2)
           \<and> open_file_buffers s2 (file_uri s2 rel) = Some b2
           \<and> contents b2 = contents b
           \<and> version b2 = version b + 2"
proof -
  let ?k = "py_bound (contents b) i"
  let ?t1 = "py_slice_to (contents b) i @ x @ py_slice_from (contents b) i"
  let ?b1 = "b\<lparr>version := version b + 1, contents := ?t1\<rparr>"
  have k: "?k \<le> length (contents b)"
    by (auto simp add: py_bound_def)
  have t1: "?t1 = take ?k (contents b) @ x @ drop ?k (contents b)"
    by (simp add: py_slice_to_def py_slice_from_def)
  obtain pos s1 where ins: "insert_text_at_position tu s rel l c x = (Inr pos, s1)"
    and s1: "server_started s1" "repository_root_path s1 = repository_root_path s"
      "open_file_buffers s1 (file_uri s rel) = Some ?b1"
    using insert_text_success [OF started opened at, of x] started by simp
  have uri1: "file_uri s1 rel = file_uri s rel"
    using s1(2) by (rule file_uri_cong)
  have opened1: "open_file_buffers s1 (file_uri s1 rel) = Some ?b1"
    using s1(3) uri1 by simp
  have del: "delete_text_between_positions tu s1 rel p q =
               (Inr (py_slice ?t1 (int ?k) (int ?k + int (length x))),
                s1\<lparr>open_file_buffers := (open_file_buffers s1)(file_uri s1 rel \<mapsto>
                      ?b1\<lparr>version := version ?b1 + 1,
                        contents := py_slice_to ?t1 (int ?k)
                                      @ py_slice_from ?t1 (int ?k + int (length x))\<rparr>),
                  notified := notified s1 @
                    [DidChange (uri ?b1) (version ?b1 + 1) \<lparr>range_start = p, range_end = q\<rparr> []]\<rparr>)"
    using delete_text_success [OF s1(1) opened1, of tu p "int ?k" q "int ?k + int (length x)"]
      from_p to_q by simp
  show ?thesis
    using ins del slices_after_insert [OF k, of x] t1
    by (simp add: file_uri_def)
qed

lemma hello_indices:
  "index_from_line_col ''hello\<newline>world'' 1 0 = Inr 6"
  "index_from_line_col ''hello\<newline>Xworld'' 1 0 = Inr 6"
  "index_from_line_col ''hello\<newline>Xworld'' 1 1 = Inr 7"
  by (simp_all add: index_from_line_col_def newline_def)

lemma md5_hello_world:
  "md5_hexdigest ''hello\<newline>world'' = ''9195d0beb2a889e1be05ed6bb1954837''"
  by code_simp

lemma md5_hello_Xworld:
  "md5_hexdigest ''hello\<newline>Xworld'' = ''5410a74abcd3e02582a2d427018be8da''"
  by code_simp

section \<open>Scopes of \<open>open_file\<close>\<close>

text \<open>The four cases of a scope boundary.\<close>

lemma open_file_enter_first:
  assumes "server_started s"
    and "open_file_buffers s (file_uri s rel) = None"
    and "disk s (absolute_file_path (repository_root_path s) rel) = Some c"
  shows "open_file_enter s rel =
           (Inr (new_LSPFileBuffer (file_uri s rel) c 0 (language_id s) 1),
            s\<lparr>open_file_buffers := (open_file_buffers s)(file_uri s rel \<mapsto>
                  new_LSPFileBuffer (file_uri s rel) c 0 (language_id s) 1),
              notified := notified s @ [DidOpen (file_uri s rel) (language_id s) 0 c]\<rparr>)"
  using assms
  by (simp add: open_file_enter_def file_uri_def read_file_def Let_def)

lemma open_file_enter_nested:
  assumes "server_started s"
    and "open_file_buffers s (file_uri s rel) = Some b"
    and "uri b = file_uri s rel"
    and "1 \<le> ref_count b"
  shows "open_file_enter s rel =
           (Inr (b\<lparr>ref_count := ref_count b + 1\<rparr>),
            s\<lparr>open_file_buffers := (open_file_buffers s)(file_uri s rel \<mapsto>
                  b\<lparr>ref_count := ref_count b + 1\<rparr>)\<rparr>)"
  using assms
  by (simp add: open_file_enter_def file_uri_def Let_def)

lemma open_file_exit_inner:
  assumes "open_file_buffers s (file_uri s rel) = Some b"
    and "ref_count b \<noteq> 1"
  shows "open_file_exit s rel =
           (Inr (),
            s\<lparr>open_file_buffers := (open_file_buffers s)(file_uri s rel \<mapsto>
                  b\<lparr>ref_count := ref_count b - 1\<rparr>)\<rparr>)"
  using assms
  by (simp add: open_file_exit_def Let_def)

lemma open_file_exit_outermost:
  assumes "open_file_buffers s (file_uri s rel) = Some b"
    and "ref_count b = 1"
  shows "open_file_exit s rel =
           (Inr (),
            s\<lparr>notified := notified s @ [DidClose (file_uri s rel)],
              open_file_buffers := (open_file_buffers s)(file_uri s rel := None)\<rparr>)"
  using assms
  by (simp add: open_file_exit_def Let_def)

lemma with_open_file_raise:
  assumes "open_file_enter s rel = (Inr b, s1)"
    and "body b s1 = (Inl e, s2)"
  shows "with_open_file s rel body = (Inl e, s2)"
  using assms by (simp add: with_open_file_def)

lemma hello_open_enter:
  "open_file_enter hello_server ''a.py'' = (Inr hello_buffer, hello_open)"
  by (simp add: hello_open_eq hello_server_eq hello_buffer_def open_file_enter_def
      absolute_file_path_def as_uri_def read_file_def Let_def)

lemma hello_paths:
  "repository_root_path hello_server = ''/repo''"
  "repository_root_path hello_open = ''/repo''"
  "disk hello_open ''/repo/a.py'' = Some ''hello\<newline>world''"
  by (simp_all add: hello_open_eq hello_server_eq)

lemma hello_lines:
  "py_split newline ''hello\<newline>world'' = [''hello'', ''world'']"
  by (simp add: newline_def)

text \<open>A scope on a file that is not open, around a body that leaves the server alone.\<close>

lemma with_open_file_closed:
  assumes started: "server_started s"
    and closed: "open_file_buffers s (file_uri s rel) = None"
    and on_disk: "disk s (absolute_file_path (repository_root_path s) rel) = Some c"
    and body: "body (new_LSPFileBuffer (file_uri s rel) c 0 (language_id s) 1)
                 (s\<lparr>open_file_buffers := (open_file_buffers s)(file_uri s rel \<mapsto>
                       new_LSPFileBuffer (file_uri s rel) c 0 (language_id s) 1),
                     notified := notified s @ [DidOpen (file_uri s rel) (language_id s) 0 c]\<rparr>)
               = (Inr v,
                  s\<lparr>open_file_buffers := (open_file_buffers s)(file_uri s rel \<mapsto>
                       new_LSPFileBuffer (file_uri s rel) c 0 (language_id s) 1),
                     notified := notified s @ [DidOpen (file_uri s rel) (language_id s) 0 c]\<rparr>)"
  shows "with_open_file s rel body =
           (Inr v,
            s\<lparr>notified := notified s @
                 [DidOpen (file_uri s rel) (language_id s) 0 c, DidClose (file_uri s rel)]\<rparr>)"
proof -
  let ?b = "new_LSPFileBuffer (file_uri s rel) c 0 (language_id s) 1"
  let ?s1 = "s\<lparr>open_file_buffers := (open_file_buffers s)(file_uri s rel \<mapsto> ?b),
               notified := notified s @ [DidOpen (file_uri s rel) (language_id s) 0 c]\<rparr>"
  have enter: "open_file_enter s rel = (Inr ?b, ?s1)"
    by (rule open_file_enter_first [OF started closed on_disk])
  have uri1: "file_uri ?s1 rel = file_uri s rel"
    by (simp add: file_uri_def)
  have "open_file_buffers ?s1 (file_uri ?s1 rel) = Some ?b"
    by (simp add: file_uri_def)
  moreover have "ref_count ?b = 1"
    by (simp add: new_LSPFileBuffer_def)
  ultimately have "open_file_exit ?s1 rel =
      (Inr (), ?s1\<lparr>notified := notified ?s1 @ [DidClose (file_uri ?s1 rel)],
                  open_file_buffers := (open_file_buffers ?s1)(file_uri ?s1 rel := None)\<rparr>)"
    by (rule open_file_exit_outermost)
  moreover have "(open_file_buffers s)(file_uri s rel := None) = open_file_buffers s"
    using closed by (simp add: fun_upd_idem_iff)
  ultimately have leave: "open_file_exit ?s1 rel =
      (Inr (), s\<lparr>notified := notified s @
                  [DidOpen (file_uri s rel) (language_id s) 0 c, DidClose (file_uri s rel)]\<rparr>)"
    by (simp add: uri1)
  show ?thesis
    by (simp add: with_open_file_def enter body leave)
qed

section \<open>The flat list of document symbols\<close>

text \<open>
  The walk of the source gives the entries of the preorder walk, and the loop over the
  answer appends them tree by tree; it fails exactly when a top-level item lacks its name
  or its kind.
\<close>

lemma visit_is_preorder:
  "visit_tree_nodes_and_build_tree_repr node = map detach (preorder node)"
proof (induction node rule: visit_tree_nodes_and_build_tree_repr.induct)
  case (1 n k r sr loc)
  show ?case by (simp add: detach_def)
next
  case (2 n k r sr loc children)
  then show ?case
    by (simp add: detach_def map_concat cong: map_cong)
qed

lemma detach_leaf: "sym_children item = None \<Longrightarrow> detach item = item"
  by (cases item) (simp add: detach_def)

lemma preorder_leaf: "sym_children item = None \<Longrightarrow> preorder item = [item]"
  by (cases item) simp

lemma document_symbols_loop_preorder:
  "document_symbols_loop ret items =
     (if \<forall>item \<in> set items. sym_name item \<noteq> None \<and> sym_kind item \<noteq> None
      then Inr (ret @ preorder_entries items) else Inl AssertionError)"
proof (induction items arbitrary: ret)
  case Nil
  show ?case by (simp add: preorder_entries_def)
next
  case (Cons item items)
  show ?case
    by (auto simp add: Cons.IH preorder_entries_def visit_is_preorder detach_leaf preorder_leaf)
qed

lemma detach_fields:
  "sym_name (detach node) = sym_name node"
  "sym_kind (detach node) = sym_kind node"
  "sym_range (detach node) = sym_range node"
  "sym_selectionRange (detach node) = sym_selectionRange node"
  "sym_location (detach node) = sym_location node"
  "sym_children (detach node) = None"
  by (simp_all add: detach_def)

lemma request_document_symbols_answer:
  assumes "document_symbols_source srv s rel = (Inr (Answer (Some response), h), s2)"
  shows "request_document_symbols srv s rel =
           (if \<forall>item \<in> set response. sym_name item \<noteq> None \<and> sym_kind item \<noteq> None
            then (Inr (preorder_entries response, None),
                  s2\<lparr>document_symbols_cache :=
                       (document_symbols_cache s2)(rel \<mapsto> (h, (preorder_entries response, None))),
                     cache_has_changed := PyBool True\<rparr>)
            else (Inl AssertionError, s2))"
  using assms
  by (simp add: request_document_symbols_def document_symbols_loop_preorder)

lemma preorder_entries_nth:
  assumes "i < length (concat (map preorder response))"
  shows "preorder_entries response ! i = detach (concat (map preorder response) ! i)"
  using assms by (simp add: preorder_entries_def)

text \<open>The server of the class scenario, evaluated.\<close>

lemma class_server_facts:
  "server_started class_server"
  "repository_root_path class_server = ''/repo''"
  "language_id class_server = ''python''"
  "file_uri class_server ''c.py'' = ''file:///repo/c.py''"
  "open_file_buffers class_server = Map.empty"
  "document_symbols_cache class_server = Map.empty"
  "notified class_server = []"
  "disk class_server ''/repo/c.py'' = Some class_text"
  by (simp_all add: class_server_def start_server_enter_def init_def load_cache_def
      file_uri_def absolute_file_path_def as_uri_def)

lemma class_source:
  "document_symbols_source class_send class_server ''c.py'' =
     (Inr (Answer (Some [node_C]), md5_hexdigest class_text), class_closed)"
proof -
  have "document_symbols_source class_send class_server ''c.py'' =
          (Inr (Answer (Some [node_C]), md5_hexdigest class_text),
           class_server\<lparr>notified := notified class_server @
             [DidOpen (file_uri class_server ''c.py'') (language_id class_server) 0 class_text,
              DidClose (file_uri class_server ''c.py'')]\<rparr>)"
    unfolding document_symbols_source_def
    by (rule with_open_file_closed [where c = class_text])
      (simp_all add: class_server_facts absolute_file_path_def class_send_def
        new_LSPFileBuffer_def)
  then show ?thesis
    by (simp add: class_server_facts class_closed_def)
qed

lemma class_preorder:
  "preorder node_C = [node_C, node_m, node_x]"
  by (simp add: node_C_def node_m_def node_x_def)

section \<open>The cache-dirty flag\<close>

text \<open>
  C2. The claim asks for a flag that is the boolean false after construction, so that a
  server that never touched its cache writes nothing on \<open>stop\<close>. The constructor stores the
  class \<open>bool\<close>, which is not a boolean and is true in a condition: a server constructed
  where no cache file exists, started and stopped without a single request, creates the
  cache file, holding the empty cache.
\<close>

theorem fresh_server_flag_is_true_and_saves:
  "cache_has_changed (init root lang files None) = BoolType
   \<and> cache_has_changed (init root lang files None) \<noteq> PyBool False
   \<and> cache_file (init root lang files None) = None
   \<and> cache_file (stop (start_server_enter (init root lang files None))) = Some Map.empty
   \<and> cache_file (save_cache (init root lang files None)) = Some Map.empty"
  by (simp add: init_def load_cache_def save_cache_def stop_def
      start_server_enter_def start_server_exit_def)

section \<open>The content hash after an edit\<close>

text \<open>
  C1. The claim asks for \<open>content_hash\<close> to be the MD5 of the current contents after every
  edit. On the buffer of \<open>a.py\<close> with the contents \<open>hello\<newline>world\<close>, inserting \<open>X\<close> at
  line 1, character 0 succeeds and leaves the contents \<open>hello\<newline>Xworld\<close>, while the field
  \<open>content_hash\<close> still holds the MD5 of the old contents, which is not the MD5 of the
  new ones.
\<close>

theorem content_hash_stale_after_insert:
  "\<exists>pos s' b'.
     insert_text_at_position TextUtils hello_open ''a.py'' 1 0 ''X'' = (Inr pos, s')
     \<and> open_file_buffers s' ''file:///repo/a.py'' = Some b'
     \<and> contents b' = ''hello\<newline>Xworld''
     \<and> content_hash b' = ''9195d0beb2a889e1be05ed6bb1954837''
     \<and> content_hash b' = md5_hexdigest ''hello\<newline>world''
     \<and> md5_hexdigest (contents b') = ''5410a74abcd3e02582a2d427018be8da''"
proof -
  have at: "get_index_from_line_col TextUtils (contents hello_buffer) 1 0 = Inr 6"
    by (simp add: TextUtils_def hello_open_facts hello_indices)
  have opened: "open_file_buffers hello_open (file_uri hello_open ''a.py'') = Some hello_buffer"
    by (simp add: hello_open_facts)
  show ?thesis
    using insert_text_success [OF hello_open_facts(1) opened at, of "''X''"]
    by (simp add: hello_open_facts hello_buffer_def new_LSPFileBuffer_def py_slice_to_def
        py_slice_from_def py_bound_def md5_hello_world md5_hello_Xworld)
qed

section \<open>Edits against plain string edits\<close>

text \<open>
  C9. Running a sequence of edits through \<open>insert_text_at_position\<close> and
  \<open>delete_text_between_positions\<close> on an open buffer gives the contents that the same
  edits give on the plain text the buffer started with, the version grows by one per
  edit, and where the string edits fail the methods raise the same exception. And when
  a text \<open>x\<close> is inserted at a position and the range that covers \<open>x\<close> in the new text is
  deleted (the offsets of its ends are where \<open>x\<close> begins and where it ends), the delete
  returns \<open>x\<close>, the contents are the original ones, and the version is two higher. The
  index helper of \<open>TextUtils\<close> is any function.
\<close>

theorem edits_agree_with_string_edits:
  assumes "server_started s"
    and "open_file_buffers s (file_uri s rel) = Some b"
  shows "(case edit_string_all tu (contents b) es of
            Inr t' \<Rightarrow>
              (\<exists>s' b'. apply_edits tu s rel es = (Inr (), s')
                 \<and> open_file_buffers s' (file_uri s' rel) = Some b'
                 \<and> contents b' = t' \<and> version b' = version b + int (length es))
          | Inl err \<Rightarrow> fst (apply_edits tu s rel es) = Inl err)
       \<and> (\<forall>i. get_index_from_line_col tu (contents b) l c = Inr i
              \<and> get_index_from_line_col tu
                  (py_slice_to (contents b) i @ x @ py_slice_from (contents b) i)
                  (line p) (character p) = Inr (int (py_bound (contents b) i))
              \<and> get_index_from_line_col tu
                  (py_slice_to (contents b) i @ x @ py_slice_from (contents b) i)
                  (line q) (character q) = Inr (int (py_bound (contents b) i) + int (length x))
              \<longrightarrow> (\<exists>pos s1 s2 b2.
                     insert_text_at_position tu s rel l c x = (Inr pos, s1)
                     \<and> delete_text_between_positions tu s1 rel p q = (Inr x, s2)
                     \<and> open_file_buffers s2 (file_uri s2 rel) = Some b2
                     \<and> contents b2 = contents b
                     \<and> version b2 = version b + 2))"
proof (intro conjI allI impI)
  show "case edit_string_all tu (contents b) es of
          Inr t' \<Rightarrow>
            (\<exists>s' b'. apply_edits tu s rel es = (Inr (), s')
               \<and> open_file_buffers s' (file_uri s' rel) = Some b'
               \<and> contents b' = t' \<and> version b' = version b + int (length es))
        | Inl err \<Rightarrow> fst (apply_edits tu s rel es) = Inl err"
    using apply_edits_agree [OF assms, of tu es]
    by (auto split: sum.splits)
next
  fix i
  assume "get_index_from_line_col tu (contents b) l c = Inr i
          \<and> get_index_from_line_col tu
              (py_slice_to (contents b) i @ x @ py_slice_from (contents b) i)
              (line p) (character p) = Inr (int (py_bound (contents b) i))
          \<and> get_index_from_line_col tu
              (py_slice_to (contents b) i @ x @ py_slice_from (contents b) i)
              (line q) (character q) = Inr (int (py_bound (contents b) i) + int (length x))"
  then show "\<exists>pos s1 s2 b2.
               insert_text_at_position tu s rel l c x = (Inr pos, s1)
               \<and> delete_text_between_positions tu s1 rel p q = (Inr x, s2)
               \<and> open_file_buffers s2 (file_uri s2 rel) = Some b2
               \<and> contents b2 = contents b
               \<and> version b2 = version b + 2"
    using insert_then_delete [OF assms, of tu l c i x p q] by blast
qed

theorem edits_agree_with_string_edits_witness:
  "server_started hello_open
   \<and> open_file_buffers hello_open (file_uri hello_open ''a.py'') = Some hello_buffer
   \<and> (\<exists>s' b'. apply_edits TextUtils hello_open ''a.py''
                 [Insert 1 0 ''X'',
                  Delete \<lparr>line = 1, character = 0\<rparr> \<lparr>line = 1, character = 1\<rparr>] = (Inr (), s')
         \<and> open_file_buffers s' (file_uri s' ''a.py'') = Some b'
         \<and> contents b' = ''hello\<newline>world'' \<and> version b' = 2)
   \<and> (\<exists>pos s1 s2 b2.
         insert_text_at_position TextUtils hello_open ''a.py'' 1 0 ''X'' = (Inr pos, s1)
         \<and> delete_text_between_positions TextUtils s1 ''a.py''
             \<lparr>line = 1, character = 0\<rparr> \<lparr>line = 1, character = 1\<rparr> = (Inr ''X'', s2)
         \<and> open_file_buffers s2 (file_uri s2 ''a.py'') = Some b2
         \<and> contents b2 = ''hello\<newline>world'' \<and> version b2 = 2)"
proof -
  have started: "server_started hello_open"
    and opened: "open_file_buffers hello_open (file_uri hello_open ''a.py'') = Some hello_buffer"
    by (simp_all add: hello_open_facts)
  show ?thesis
    using started opened
      edits_agree_with_string_edits [OF started opened, of TextUtils
        "[Insert 1 0 ''X'', Delete \<lparr>line = 1, character = 0\<rparr> \<lparr>line = 1, character = 1\<rparr>]"
        1 0 "''X''" "\<lparr>line = 1, character = 0\<rparr>" "\<lparr>line = 1, character = 1\<rparr>"]
    by (simp add: hello_open_facts edit_string_def TextUtils_def hello_indices
        py_slice_to_def py_slice_from_def py_bound_def)
qed

section \<open>A scope left by an exception\<close>

text \<open>
  C5. The claim asks that every exit of an \<open>open_file\<close> scope decrements the reference
  count and that the outermost exit sends \<open>didClose\<close> and removes the buffer. A scope whose
  body raises is left without either: on the started server with no buffer open, a body
  that raises \<open>e\<close> leaves the server as it was right after the \<open>yield\<close>, and so does
  \<open>request_containing_symbol\<close> for line 2 of the two-line file \<open>a.py\<close>, whose
  \<open>IndexError\<close> is raised inside the scope: the buffer stays in the table with reference
  count 1 and the only notification sent is the \<open>didOpen\<close>.
\<close>

theorem exception_in_scope_skips_release:
  "with_open_file hello_server ''a.py'' (\<lambda>file_data s. (Inl e, s)) = (Inl e, hello_open)
   \<and> request_containing_symbol srv hello_server ''a.py'' 2 column strict
       = (Inl IndexError, hello_open)
   \<and> open_file_buffers hello_server ''file:///repo/a.py'' = None
   \<and> map_option ref_count (open_file_buffers hello_open ''file:///repo/a.py'') = Some 1
   \<and> notified hello_open = [DidOpen ''file:///repo/a.py'' ''python'' 0 ''hello\<newline>world'']"
proof -
  have raise: "with_open_file hello_server ''a.py'' (\<lambda>file_data s. (Inl e, s)) = (Inl e, hello_open)"
    for e :: error
    by (simp add: with_open_file_def hello_open_enter)
  have "request_containing_symbol srv hello_server ''a.py'' 2 column strict
          = (Inl IndexError, hello_open)"
    by (simp add: request_containing_symbol_def with_open_file_def hello_open_enter
        hello_paths absolute_file_path_def read_file_def hello_lines py_index_def
        del: py_split.simps)
  then show ?thesis
    using raise
    by (simp add: hello_open_eq hello_server_eq hello_buffer_def new_LSPFileBuffer_def)
qed

section \<open>Normalization of a hierarchical answer\<close>

text \<open>
  C6, as amended. When \<open>request_document_symbols\<close> gets the answer \<open>response\<close> from the
  server and every top-level item has a name and a kind, it returns the entries of the
  depth-first preorder walk of \<open>response\<close>, one per node and in that order, with no tree
  representation; every entry has no children and has the name, kind, range, selection
  range and location of its node. In particular an entry has a location only when the
  server's node had one: this method synthesizes none.
\<close>

theorem document_symbols_preorder_without_location:
  assumes "document_symbols_source srv s rel = (Inr (Answer (Some response), h), s2)"
    and "\<forall>item \<in> set response. sym_name item \<noteq> None \<and> sym_kind item \<noteq> None"
  shows "fst (request_document_symbols srv s rel) = Inr (preorder_entries response, None)
         \<and> length (preorder_entries response) = length (concat (map preorder response))
         \<and> (\<forall>i < length (concat (map preorder response)).
               sym_children (preorder_entries response ! i) = None
               \<and> sym_name (preorder_entries response ! i)
                   = sym_name (concat (map preorder response) ! i)
               \<and> sym_kind (preorder_entries response ! i)
                   = sym_kind (concat (map preorder response) ! i)
               \<and> sym_range (preorder_entries response ! i)
                   = sym_range (concat (map preorder response) ! i)
               \<and> sym_selectionRange (preorder_entries response ! i)
                   = sym_selectionRange (concat (map preorder response) ! i)
               \<and> sym_location (preorder_entries response ! i)
                   = sym_location (concat (map preorder response) ! i))"
proof (intro conjI allI impI)
  show "fst (request_document_symbols srv s rel) = Inr (preorder_entries response, None)"
    using assms by (simp add: request_document_symbols_answer)
  show "length (preorder_entries response) = length (concat (map preorder response))"
    by (simp add: preorder_entries_def)
qed (simp_all add: preorder_entries_nth detach_fields)

theorem document_symbols_preorder_without_location_witness:
  "document_symbols_source class_send class_server ''c.py''
     = (Inr (Answer (Some [node_C]), md5_hexdigest class_text), class_closed)
   \<and> sym_name node_C = Some ''C'' \<and> sym_kind node_C = Some SymbolKind_Class
   \<and> fst (request_document_symbols class_send class_server ''c.py'')
       = Inr (preorder_entries [node_C], None)
   \<and> length (preorder_entries [node_C]) = 3
   \<and> sym_range (preorder_entries [node_C] ! 1) = sym_range node_m
   \<and> sym_location (preorder_entries [node_C] ! 1) = sym_location node_m
   \<and> sym_children (preorder_entries [node_C] ! 1) = None"
proof -
  have names: "\<forall>item \<in> set [node_C]. sym_name item \<noteq> None \<and> sym_kind item \<noteq> None"
    by (simp add: node_C_def)
  have fields: "sym_name node_C = Some ''C''" "sym_kind node_C = Some SymbolKind_Class"
    by (simp_all add: node_C_def)
  have "1 < length (concat (map preorder [node_C]))"
    by (simp add: class_preorder)
  with document_symbols_preorder_without_location [OF class_source names]
  show ?thesis
    using class_source fields
    by (auto simp add: class_preorder)
qed

text \<open>
  C6 as stated fails: for the hierarchical answer of the class scenario the three entries
  come back in preorder with their ranges and without any location.
\<close>

theorem document_symbols_entries_have_no_location:
  "fst (request_document_symbols class_send class_server ''c.py'')
     = Inr ([Symbol (Some ''C'') (Some SymbolKind_Class) (Some (span 0 0 2 9))
               (Some (span 0 6 0 7)) None None,
             Symbol (Some ''m'') (Some SymbolKind_Method) (Some (span 1 2 2 9))
               (Some (span 1 6 1 7)) None None,
             Symbol (Some ''x'') (Some SymbolKind_Variable) (Some (span 2 4 2 9))
               (Some (span 2 4 2 5)) None None], None)"
proof -
  have "fst (request_document_symbols class_send class_server ''c.py'')
          = Inr (preorder_entries [node_C], None)"
    using request_document_symbols_answer [OF class_source]
    by (simp add: node_C_def)
  then show ?thesis
    by (simp add: preorder_entries_def class_preorder detach_def node_C_def node_m_def
        node_x_def)
qed

end
